theory Spec2Isabelle
  imports Main
begin

section \<open>JavaScript values and exceptions\<close>

text \<open>
  The page script \<^verbatim>\<open>src/js/main.js\<close> is a set of module objects whose methods read and
  write the browser's state. Each method becomes a function from the state it touches to
  the state it leaves. Browser calls that can raise return a sum, with the exception on
  the left; a \<^verbatim>\<open>try { ... } catch (e) { ... }\<close> of the source is the case distinction on
  that sum.
\<close>

datatype js_error = SecurityError | QuotaExceededError | SyntaxError | TypeError | ReferenceError

text \<open>How a call of a handler ends: it returns, or an exception leaves it.\<close>

datatype completion = Returned | Threw js_error

text \<open>
  A value read from storage or from an attribute is a string or \<^verbatim>\<open>null\<close>. In a
  condition, \<^verbatim>\<open>null\<close> and the empty string are falsy and every other string is truthy.
\<close>

fun truthy :: "string option \<Rightarrow> bool" where
  "truthy None = False"
| "truthy (Some s) = (s \<noteq> [])"

text \<open>\<^verbatim>\<open>classList.add\<close>, \<^verbatim>\<open>classList.remove\<close> and \<^verbatim>\<open>classList.contains\<close> on a token list.\<close>

definition classList_contains :: "string list \<Rightarrow> string \<Rightarrow> bool" where
  "classList_contains cs c = (c \<in> set cs)"

definition classList_add :: "string list \<Rightarrow> string \<Rightarrow> string list" where
  "classList_add cs c = (if c \<in> set cs then cs else cs @ [c])"

definition classList_remove :: "string list \<Rightarrow> string \<Rightarrow> string list" where
  "classList_remove cs c = filter (\<lambda>x. x \<noteq> c) cs"

section \<open>Theme Toggle Module\<close>

text \<open>
  \<^verbatim>\<open>localStorage\<close>: the stored items, whether \<^verbatim>\<open>getItem\<close> and \<^verbatim>\<open>setItem\<close> return or
  raise (storage blocked, quota exhausted), and the \<^verbatim>\<open>setItem\<close> calls issued so far,
  the rejected ones included. A call that raises leaves the items as they were.
\<close>

record storage =
  items :: "string \<rightharpoonup> string"
  readable :: bool
  writable :: bool
  setItem_calls :: "(string \<times> string) list"

definition getItem :: "storage \<Rightarrow> string \<Rightarrow> js_error + string option" where
  "getItem st k = (if readable st then Inr (items st k) else Inl SecurityError)"

definition setItem :: "storage \<Rightarrow> string \<Rightarrow> string \<Rightarrow> completion \<times> storage" where
  "setItem st k v =
     (let st1 = st\<lparr>setItem_calls := setItem_calls st @ [(k, v)]\<rparr>
      in if writable st
         then (Returned, st1\<lparr>items := (items st1)(k \<mapsto> v)\<rparr>)
         else (Threw QuotaExceededError, st1))"

text \<open>
  What the module sees of the page. \<open>matchMedia = None\<close> stands for a window without
  \<^verbatim>\<open>matchMedia\<close>; \<open>Some b\<close> gives \<^verbatim>\<open>matchMedia('(prefers-color-scheme: dark)').matches\<close>.
  \<open>has_toggle\<close> says whether \<^verbatim>\<open>document.querySelector('[data-theme-toggle]')\<close> finds an
  element, \<open>aria_label\<close> is that element's attribute, \<open>data_theme\<close> the attribute of the
  document root. The two \<open>_bound\<close> fields record the listeners \<^verbatim>\<open>init\<close> has registered.
\<close>

record theme_page =
  localStorage :: storage
  matchMedia :: "bool option"
  data_theme :: "string option"
  has_toggle :: bool
  aria_label :: "string option"
  click_bound :: bool
  change_bound :: bool

definition STORAGE_KEY :: string where
  "STORAGE_KEY = ''theme-preference''"

definition getSavedTheme :: "theme_page \<Rightarrow> string option" where
  "getSavedTheme p =
     (case getItem (localStorage p) STORAGE_KEY of
        Inr v \<Rightarrow> v
      | Inl e \<Rightarrow> None)"

definition getSystemTheme :: "theme_page \<Rightarrow> string" where
  "getSystemTheme p =
     (if matchMedia p \<noteq> None \<and> matchMedia p = Some True then ''dark'' else ''light'')"

definition setTheme :: "string \<Rightarrow> bool \<Rightarrow> theme_page \<Rightarrow> theme_page" where
  "setTheme theme save p =
     (let p1 = p\<lparr>data_theme := Some theme\<rparr>;
          p2 = (if save
                then (case setItem (localStorage p1) STORAGE_KEY theme of
                        (Returned, st) \<Rightarrow> p1\<lparr>localStorage := st\<rparr>
                      | (Threw e, st) \<Rightarrow> p1\<lparr>localStorage := st\<rparr>)
                else p1)
      in if has_toggle p2
         then p2\<lparr>aria_label :=
                   Some (if theme = ''dark'' then ''Switch to light mode'' else ''Switch to dark mode'')\<rparr>
         else p2)"

definition toggleTheme :: "theme_page \<Rightarrow> theme_page" where
  "toggleTheme p =
     (let currentTheme = data_theme p;
          newTheme = (if currentTheme = Some ''dark'' then ''light'' else ''dark'')
      in setTheme newTheme True p)"


definition watchSystemTheme :: "theme_page \<Rightarrow> theme_page" where
  "watchSystemTheme p = (if matchMedia p \<noteq> None then p\<lparr>change_bound := True\<rparr> else p)"

definition ThemeToggle_init :: "theme_page \<Rightarrow> theme_page" where
  "ThemeToggle_init p =
     (let savedTheme = getSavedTheme p;
          systemTheme = getSystemTheme p;
          initialTheme = (if truthy savedTheme then the savedTheme else systemTheme);
          p1 = setTheme initialTheme False p;
          p2 = (if has_toggle p1 then p1\<lparr>click_bound := True\<rparr> else p1)
      in watchSystemTheme p2)"

text \<open>
  The browser delivering events to the registered listeners: a click on the toggle
  control, and a change of the system colour scheme to dark (\<open>True\<close>) or light.
\<close>

definition click_toggle :: "theme_page \<Rightarrow> theme_page" where
  "click_toggle p = (if click_bound p then toggleTheme p else p)"


text \<open>Example pages.\<close>

definition empty_storage :: storage where
  "empty_storage = \<lparr>items = Map.empty, readable = True, writable = True, setItem_calls = []\<rparr>"

definition stored :: "string \<Rightarrow> storage" where
  "stored v = empty_storage\<lparr>items := [STORAGE_KEY \<mapsto> v]\<rparr>"

definition fresh_page :: "storage \<Rightarrow> bool option \<Rightarrow> theme_page" where
  "fresh_page st mm =
     \<lparr>localStorage = st, matchMedia = mm, data_theme = None, has_toggle = True,
      aria_label = None, click_bound = False, change_bound = False\<rparr>"

text \<open>The page as \<^verbatim>\<open>init\<close> leaves it, for a store and a system preference.\<close>

definition started :: "storage \<Rightarrow> bool \<Rightarrow> theme_page" where
  "started st dark = ThemeToggle_init (fresh_page st (Some dark))"

section \<open>Smooth Scroll Module\<close>

text \<open>
  What \<^verbatim>\<open>handleClick\<close> sees of the window. \<open>querySelector\<close> is \<^verbatim>\<open>document.querySelector\<close>:
  on a string that is not a selector it raises, otherwise it gives the first matching
  element or \<^verbatim>\<open>null\<close>. \<open>rect_top\<close> is \<^verbatim>\<open>getBoundingClientRect().top\<close> of an element.
  The numbers of the page are kept abstract (any type with the arithmetic the handler
  uses), so that nothing depends on how they are represented. The calls of
  \<^verbatim>\<open>window.scrollTo\<close> (position and behaviour) and of \<^verbatim>\<open>history.pushState\<close> (the
  address given) are recorded in the order they are issued.
\<close>

record 'n scroll_window =
  querySelector :: "string \<Rightarrow> js_error + nat option"
  rect_top :: "nat \<Rightarrow> 'n"
  pageYOffset :: 'n
  scrollTo_calls :: "('n \<times> string) list"
  pushState_calls :: "string list"

record click_event =
  defaultPrevented :: bool

definition HEADER_OFFSET :: "'n::numeral" where
  "HEADER_OFFSET = 80"

definition handleClick ::
  "click_event \<Rightarrow> string option \<Rightarrow> ('n::{plus,minus,numeral}) scroll_window
     \<Rightarrow> completion \<times> click_event \<times> 'n scroll_window" where
  "handleClick e href w =
     (if \<not> truthy href \<or> href = Some ''#'' then (Returned, e, w)
      else
        (case querySelector w (the href) of
           Inl err \<Rightarrow> (Threw err, e, w)
         | Inr None \<Rightarrow> (Returned, e, w)
         | Inr (Some target) \<Rightarrow>
             (let e1 = e\<lparr>defaultPrevented := True\<rparr>;
                  targetPosition = rect_top w target + pageYOffset w;
                  offsetPosition = targetPosition - HEADER_OFFSET;
                  w1 = w\<lparr>scrollTo_calls := scrollTo_calls w @ [(offsetPosition, ''smooth'')]\<rparr>;
                  w2 = w1\<lparr>pushState_calls := pushState_calls w1 @ [the href]\<rparr>
              in (Returned, e1, w2))))"

text \<open>
  An example document: its one addressable element, number 2, has the id
  \<^verbatim>\<open>section2\<close> and lies 500 units below the top of the viewport, the page is scrolled
  by 120 units. \<^verbatim>\<open>#/about\<close> is not a selector, so \<^verbatim>\<open>querySelector\<close> raises on it.
\<close>

definition demo_query :: "string \<Rightarrow> js_error + nat option" where
  "demo_query sel =
     (if sel = ''#section2'' then Inr (Some 2)
      else if sel = ''#/about'' then Inl SyntaxError
      else Inr None)"

definition demo_window :: "int scroll_window" where
  "demo_window =
     \<lparr>querySelector = demo_query, rect_top = (\<lambda>el. 500), pageYOffset = 120,
      scrollTo_calls = [], pushState_calls = []\<rparr>"

definition fresh_click :: click_event where
  "fresh_click = \<lparr>defaultPrevented = False\<rparr>"

section \<open>Scroll Reveal Module\<close>

text \<open>
  The elements of the document are numbered, \<open>elements\<close> lists them in document order
  and \<open>classList\<close> gives the class tokens of each. \<open>reduced_motion = None\<close> stands for a
  window without \<^verbatim>\<open>matchMedia\<close> (the call then raises), \<open>Some b\<close> gives
  \<^verbatim>\<open>matchMedia('(prefers-reduced-motion: reduce)').matches\<close>. \<open>observer\<close> says whether
  \<^verbatim>\<open>this.observer\<close> has been created, \<open>observed\<close> holds its observation targets and
  \<open>observe_calls\<close> the \<^verbatim>\<open>observe\<close> calls issued.
\<close>

record reveal_page =
  reduced_motion :: "bool option"
  has_IntersectionObserver :: bool
  elements :: "nat list"
  classList :: "nat \<Rightarrow> string list"
  observer :: bool
  observed :: "nat set"
  observe_calls :: "nat list"

record entry =
  isIntersecting :: bool
  target :: nat

text \<open>\<^verbatim>\<open>document.querySelectorAll('.reveal, .stagger-children')\<close>.\<close>

definition candidates :: "reveal_page \<Rightarrow> nat list" where
  "candidates p =
     filter (\<lambda>el. classList_contains (classList p el) ''reveal''
                 \<or> classList_contains (classList p el) ''stagger-children'')
       (elements p)"

definition add_revealed :: "nat \<Rightarrow> reveal_page \<Rightarrow> reveal_page" where
  "add_revealed el p = p\<lparr>classList := (classList p)(el := classList_add (classList p el) ''revealed'')\<rparr>"

definition observe :: "nat \<Rightarrow> reveal_page \<Rightarrow> reveal_page" where
  "observe el p = p\<lparr>observed := insert el (observed p), observe_calls := observe_calls p @ [el]\<rparr>"

definition unobserve :: "nat \<Rightarrow> reveal_page \<Rightarrow> reveal_page" where
  "unobserve el p = p\<lparr>observed := observed p - {el}\<rparr>"

definition ScrollReveal_init :: "reveal_page \<Rightarrow> completion \<times> reveal_page" where
  "ScrollReveal_init p =
     (case reduced_motion p of
        None \<Rightarrow> (Threw TypeError, p)
      | Some True \<Rightarrow> (Returned, fold add_revealed (candidates p) p)
      | Some False \<Rightarrow>
          (if \<not> has_IntersectionObserver p then (Threw ReferenceError, p)
           else (Returned, fold observe (candidates p) (p\<lparr>observer := True\<rparr>))))"

definition handleEntry :: "entry \<Rightarrow> reveal_page \<Rightarrow> reveal_page" where
  "handleEntry en p =
     (if isIntersecting en then unobserve (target en) (add_revealed (target en) p) else p)"

definition handleIntersection :: "entry list \<Rightarrow> reveal_page \<Rightarrow> reveal_page" where
  "handleIntersection entries p = fold handleEntry entries p"

text \<open>An element is revealed when it carries the class \<^verbatim>\<open>revealed\<close>, pending otherwise.\<close>

definition revealed :: "nat \<Rightarrow> reveal_page \<Rightarrow> bool" where
  "revealed el p = classList_contains (classList p el) ''revealed''"

text \<open>
  The observer reports a batch: the callback receives the entries whose targets it is
  observing at that moment.
\<close>

definition deliver :: "entry list \<Rightarrow> reveal_page \<Rightarrow> reveal_page" where
  "deliver batch p = handleIntersection (filter (\<lambda>en. target en \<in> observed p) batch) p"

text \<open>
  The states a page goes through while the callback handles one batch after another,
  and the number of steps in such a history at which an element passes from pending to
  revealed.
\<close>

fun history :: "reveal_page \<Rightarrow> entry list list \<Rightarrow> reveal_page list" where
  "history p [] = [p]"
| "history p (b # bs) = p # history (handleIntersection b p) bs"

fun transitions :: "nat \<Rightarrow> reveal_page list \<Rightarrow> nat" where
  "transitions el (p # q # ps) =
     (if \<not> revealed el p \<and> revealed el q then 1 else 0) + transitions el (q # ps)"
| "transitions el ps = 0"

text \<open>
  An example page: elements 1 and 2 are candidates, element 3 is not.
\<close>

definition demo_classes :: "nat \<Rightarrow> string list" where
  "demo_classes el =
     (if el = 1 then [''reveal''] else if el = 2 then [''card'', ''stagger-children''] else [])"

definition demo_reveal :: "bool \<Rightarrow> reveal_page" where
  "demo_reveal reduce =
     \<lparr>reduced_motion = Some reduce, has_IntersectionObserver = True, elements = [1, 2, 3],
      classList = demo_classes, observer = False, observed = {}, observe_calls = []\<rparr>"

text \<open>
  The example page once \<^verbatim>\<open>init\<close> has set up the observer, and a batch that reports
  element 1 as intersecting and element 2 as not.
\<close>

definition observing_page :: reveal_page where
  "observing_page = snd (ScrollReveal_init (demo_reveal False))"

definition demo_batch :: "entry list" where
  "demo_batch = [\<lparr>isIntersecting = True, target = 1\<rparr>, \<lparr>isIntersecting = False, target = 2\<rparr>]"

section \<open>Mobile Menu Module\<close>

text \<open>
  \<open>has_menu_toggle\<close> and \<open>has_menu\<close> say whether the two \<^verbatim>\<open>querySelector\<close> calls of
  \<^verbatim>\<open>init\<close> find an element; \<open>menu_classes\<close> is the class list of the menu,
  \<open>aria_expanded\<close> the attribute of the toggle, \<open>menu_bound\<close> records that \<^verbatim>\<open>init\<close>
  has registered its listeners. Of a click the listener reads only whether its target
  lies inside the menu or inside the toggle.
\<close>

record menu_page =
  has_menu_toggle :: bool
  has_menu :: bool
  menu_classes :: "string list"
  aria_expanded :: "string option"
  menu_bound :: bool

record pointer_event =
  in_menu :: bool
  in_toggle :: bool

definition is_open :: "menu_page \<Rightarrow> bool" where
  "is_open p = classList_contains (menu_classes p) ''is-open''"

definition toggleMenu :: "menu_page \<Rightarrow> menu_page" where
  "toggleMenu p =
     (let isOpen = \<not> classList_contains (menu_classes p) ''is-open'';
          p1 = p\<lparr>menu_classes :=
                   (if isOpen then classList_add (menu_classes p) ''is-open''
                    else classList_remove (menu_classes p) ''is-open'')\<rparr>
      in p1\<lparr>aria_expanded := Some (if isOpen then ''true'' else ''false'')\<rparr>)"

definition closeMenu :: "menu_page \<Rightarrow> menu_page" where
  "closeMenu p =
     (let p1 = p\<lparr>menu_classes := classList_remove (menu_classes p) ''is-open''\<rparr>
      in p1\<lparr>aria_expanded := Some ''false''\<rparr>)"

text \<open>The two listeners that \<^verbatim>\<open>init\<close> registers on the document.\<close>

definition onDocumentClick :: "pointer_event \<Rightarrow> menu_page \<Rightarrow> menu_page" where
  "onDocumentClick e p = (if \<not> in_menu e \<and> \<not> in_toggle e then closeMenu p else p)"

definition onDocumentKeydown :: "string \<Rightarrow> menu_page \<Rightarrow> menu_page" where
  "onDocumentKeydown key p = (if key = ''Escape'' then closeMenu p else p)"

definition MobileMenu_init :: "menu_page \<Rightarrow> menu_page" where
  "MobileMenu_init p =
     (if \<not> has_menu_toggle p \<or> \<not> has_menu p then p else p\<lparr>menu_bound := True\<rparr>)"

text \<open>
  Example pages: a closed menu whose toggle carries no \<^verbatim>\<open>aria-expanded\<close> attribute
  yet, and a click that lies outside the menu and the toggle.
\<close>

definition closed_menu :: "string option \<Rightarrow> menu_page" where
  "closed_menu expanded =
     \<lparr>has_menu_toggle = True, has_menu = True, menu_classes = [''nav''],
      aria_expanded = expanded, menu_bound = True\<rparr>"

definition outside_click :: pointer_event where
  "outside_click = \<lparr>in_menu = False, in_toggle = False\<rparr>"

section \<open>Properties of the Theme Toggle Module\<close>

lemma getSavedTheme_readable:
  "readable (localStorage p) \<Longrightarrow> getSavedTheme p = items (localStorage p) STORAGE_KEY"
  by (simp add: getSavedTheme_def getItem_def)

lemma getSavedTheme_unreadable:
  "\<not> readable (localStorage p) \<Longrightarrow> getSavedTheme p = None"
  by (simp add: getSavedTheme_def getItem_def)

lemma data_theme_setTheme [simp]: "data_theme (setTheme t save p) = Some t"
  by (simp add: setTheme_def Let_def split: prod.splits completion.splits)

lemma data_theme_watchSystemTheme [simp]: "data_theme (watchSystemTheme p) = data_theme p"
  by (simp add: watchSystemTheme_def)

lemma data_theme_init:
  "data_theme (ThemeToggle_init p) =
     Some (if truthy (getSavedTheme p) then the (getSavedTheme p) else getSystemTheme p)"
  by (simp add: ThemeToggle_init_def Let_def)

text \<open>
  C1. The theme applied by \<^verbatim>\<open>init\<close> follows the precedence persisted value, system
  preference, default: a persisted value that is present (a string that the source's
  \<^verbatim>\<open>savedTheme || systemTheme\<close> takes, that is a non-empty one) is applied whatever the
  system preference; with none, a dark system preference gives \<^verbatim>\<open>dark\<close>; otherwise
  \<^verbatim>\<open>light\<close> is applied. In particular a persisted \<^verbatim>\<open>light\<close> overrides the system
  preference.
\<close>

theorem init_theme_precedence:
  "(readable (localStorage p) \<and> items (localStorage p) STORAGE_KEY = Some v \<and> v \<noteq> []
      \<longrightarrow> data_theme (ThemeToggle_init p) = Some v)
   \<and> (readable (localStorage p) \<and> items (localStorage p) STORAGE_KEY = Some ''light''
      \<longrightarrow> data_theme (ThemeToggle_init p) = Some ''light'')
   \<and> (getSavedTheme p = None \<and> matchMedia p = Some True
      \<longrightarrow> data_theme (ThemeToggle_init p) = Some ''dark'')
   \<and> (getSavedTheme p = None \<and> matchMedia p \<noteq> Some True
      \<longrightarrow> data_theme (ThemeToggle_init p) = Some ''light'')"
  by (simp add: data_theme_init getSavedTheme_readable getSystemTheme_def)

theorem init_theme_precedence_witness:
  "data_theme (ThemeToggle_init (fresh_page (stored ''light'') (Some True))) = Some ''light''
   \<and> data_theme (ThemeToggle_init (fresh_page empty_storage (Some True))) = Some ''dark''
   \<and> data_theme (ThemeToggle_init (fresh_page empty_storage (Some False))) = Some ''light''
   \<and> data_theme (ThemeToggle_init (fresh_page empty_storage None)) = Some ''light''"
proof -
  have s: "readable (localStorage (fresh_page (stored ''light'') (Some True)))
      \<and> items (localStorage (fresh_page (stored ''light'') (Some True))) STORAGE_KEY = Some ''light''"
    by (simp add: fresh_page_def stored_def empty_storage_def)
  have n: "getSavedTheme (fresh_page empty_storage mm) = None" for mm
    by (simp add: getSavedTheme_def getItem_def fresh_page_def empty_storage_def)
  have m: "matchMedia (fresh_page empty_storage mm) = mm" for mm
    by (simp add: fresh_page_def)
  show ?thesis
    using s n m
      init_theme_precedence [of "fresh_page (stored ''light'') (Some True)" "''light''"]
      init_theme_precedence [of "fresh_page empty_storage (Some True)" "''x''"]
      init_theme_precedence [of "fresh_page empty_storage (Some False)" "''x''"]
      init_theme_precedence [of "fresh_page empty_storage None" "''x''"]
    by simp
qed

lemma localStorage_setTheme_unsaved [simp]: "localStorage (setTheme t False p) = localStorage p"
  by (simp add: setTheme_def Let_def)

lemma getSavedTheme_setTheme_unsaved [simp]: "getSavedTheme (setTheme t False p) = getSavedTheme p"
  by (simp add: getSavedTheme_def)

lemma localStorage_setTheme_saved:
  "localStorage (setTheme t True p) =
     (localStorage p)\<lparr>setItem_calls := setItem_calls (localStorage p) @ [(STORAGE_KEY, t)],
        items := (if writable (localStorage p) then (items (localStorage p))(STORAGE_KEY \<mapsto> t)
                  else items (localStorage p))\<rparr>"
  by (simp add: setTheme_def setItem_def Let_def)

lemma data_theme_toggleTheme:
  "data_theme (toggleTheme p) = Some (if data_theme p = Some ''dark'' then ''light'' else ''dark'')"
  by (simp add: toggleTheme_def Let_def)

lemma localStorage_toggleTheme:
  "localStorage (toggleTheme p) =
     (localStorage p)\<lparr>setItem_calls := setItem_calls (localStorage p)
          @ [(STORAGE_KEY, if data_theme p = Some ''dark'' then ''light'' else ''dark'')],
        items := (if writable (localStorage p)
                  then (items (localStorage p))
                         (STORAGE_KEY \<mapsto> (if data_theme p = Some ''dark'' then ''light'' else ''dark''))
                  else items (localStorage p))\<rparr>"
  by (simp add: toggleTheme_def Let_def localStorage_setTheme_saved)


lemma getSavedTheme_matchMedia [simp]:
  "getSavedTheme (p\<lparr>matchMedia := mm\<rparr>) = getSavedTheme p"
  by (simp add: getSavedTheme_def)






lemmas theme_defs = started_def ThemeToggle_init_def fresh_page_def stored_def empty_storage_def
  getSavedTheme_def getItem_def getSystemTheme_def setTheme_def setItem_def watchSystemTheme_def
  toggleTheme_def STORAGE_KEY_def Let_def


text \<open>
  C5 as stated fails: a stored value that is neither \<^verbatim>\<open>light\<close> nor \<^verbatim>\<open>dark\<close> is not
  treated as no preference. With \<^verbatim>\<open>blue\<close> stored and a dark system preference,
  \<^verbatim>\<open>init\<close> applies \<^verbatim>\<open>blue\<close>.
\<close>

theorem init_corrupted_value_counterexample:
  "getSystemTheme (fresh_page (stored ''blue'') (Some True)) = ''dark''
   \<and> data_theme (ThemeToggle_init (fresh_page (stored ''blue'') (Some True))) = Some ''blue''"
  by (simp add: theme_defs)

text \<open>
  C5, amended. A read error of the store is caught and reads as absence; an absent or
  empty persisted value is treated as no preference, so that \<^verbatim>\<open>init\<close> applies the
  system theme, which is \<^verbatim>\<open>dark\<close> or \<^verbatim>\<open>light\<close>; every other stored string is applied
  as it is, whether or not it is one of those two.
\<close>

theorem saved_theme_absence:
  "(\<not> readable (localStorage p) \<longrightarrow> getSavedTheme p = None)
   \<and> (getSavedTheme p = None \<or> getSavedTheme p = Some [] \<longrightarrow>
        data_theme (ThemeToggle_init p) = Some (getSystemTheme p))
   \<and> (getSavedTheme p = Some v \<and> v \<noteq> [] \<longrightarrow> data_theme (ThemeToggle_init p) = Some v)
   \<and> (getSystemTheme p = ''dark'' \<or> getSystemTheme p = ''light'')"
  by (auto simp add: data_theme_init getSavedTheme_unreadable getSystemTheme_def)

theorem saved_theme_absence_witness:
  "getSavedTheme (fresh_page (empty_storage\<lparr>readable := False\<rparr>) (Some True)) = None
   \<and> data_theme (ThemeToggle_init (fresh_page (empty_storage\<lparr>readable := False\<rparr>) (Some True)))
       = Some ''dark''
   \<and> data_theme (ThemeToggle_init (fresh_page (stored []) (Some True))) = Some ''dark''
   \<and> data_theme (ThemeToggle_init (fresh_page (stored ''blue'') (Some True))) = Some ''blue''"
proof -
  have u: "\<not> readable (localStorage (fresh_page (empty_storage\<lparr>readable := False\<rparr>) (Some True)))"
    by (simp add: fresh_page_def empty_storage_def)
  have d: "getSystemTheme (fresh_page st (Some True)) = ''dark''" for st
    by (simp add: getSystemTheme_def fresh_page_def)
  have e: "getSavedTheme (fresh_page (stored []) (Some True)) = Some []"
    by (simp add: theme_defs)
  have b: "getSavedTheme (fresh_page (stored ''blue'') (Some True)) = Some ''blue''"
    by (simp add: theme_defs)
  from u d e b
    saved_theme_absence [of "fresh_page (empty_storage\<lparr>readable := False\<rparr>) (Some True)" "''x''"]
    saved_theme_absence [of "fresh_page (stored []) (Some True)" "''x''"]
    saved_theme_absence [of "fresh_page (stored ''blue'') (Some True)" "''blue''"]
  show ?thesis by simp
qed

text \<open>
  C8 as stated fails: from an applied theme outside \<^verbatim>\<open>light\<close> and \<^verbatim>\<open>dark\<close>, here the
  \<^verbatim>\<open>blue\<close> that \<^verbatim>\<open>init\<close> took from the store, two calls of \<^verbatim>\<open>toggleTheme\<close> end at
  \<^verbatim>\<open>light\<close>.
\<close>

theorem toggleTheme_twice_counterexample:
  "data_theme (toggleTheme (toggleTheme (started (stored ''blue'') True)))
     \<noteq> data_theme (started (stored ''blue'') True)"
  by (simp add: theme_defs)

text \<open>
  C8, amended. When the applied theme is \<^verbatim>\<open>light\<close> or \<^verbatim>\<open>dark\<close>, two calls of
  \<^verbatim>\<open>toggleTheme\<close> in succession bring the \<^verbatim>\<open>data-theme\<close> attribute back to its value
  before the first call; and when the store accepts writes, the value stored under the
  preference key after the second call is the theme applied then.
\<close>

theorem toggleTheme_twice:
  "(data_theme p = Some ''light'' \<or> data_theme p = Some ''dark'' \<longrightarrow>
      data_theme (toggleTheme (toggleTheme p)) = data_theme p)
   \<and> (writable (localStorage p) \<longrightarrow>
        items (localStorage (toggleTheme (toggleTheme p))) STORAGE_KEY
          = data_theme (toggleTheme (toggleTheme p)))"
  by (auto simp add: data_theme_toggleTheme localStorage_toggleTheme)

theorem toggleTheme_twice_witness:
  "data_theme (started empty_storage True) = Some ''dark''
   \<and> data_theme (toggleTheme (toggleTheme (started empty_storage True))) = Some ''dark''
   \<and> items (localStorage (toggleTheme (toggleTheme (started empty_storage True)))) STORAGE_KEY
       = Some ''dark''"
proof -
  have d: "data_theme (started empty_storage True) = Some ''dark''"
    by (simp add: theme_defs)
  have w: "writable (localStorage (started empty_storage True))"
    by (simp add: theme_defs)
  from d w toggleTheme_twice [of "started empty_storage True"]
  show ?thesis by simp
qed



section \<open>Properties of the Smooth Scroll Module\<close>

text \<open>
  C3. A click on a link whose \<^verbatim>\<open>href\<close> is absent, empty or the bare \<^verbatim>\<open>#\<close>, or whose
  fragment matches no element, changes nothing: the handler returns with the event and
  the window as they were, so no scroll call, no history change and the default
  behaviour not prevented. The same holds of event and window whenever the lookup gives
  no element. When the fragment matches an element, the handler prevents the default
  navigation, issues exactly one \<^verbatim>\<open>scrollTo\<close> call, smooth, to the target's top offset
  in the viewport plus the current vertical scroll, minus 80, and updates the address by
  one \<^verbatim>\<open>pushState\<close> call with the link's fragment. (No element matches the empty
  string or the bare \<^verbatim>\<open>#\<close>, which are not selectors.)
\<close>

theorem handleClick_scrolls:
  "(href = None \<or> href = Some [] \<or> href = Some ''#'' \<longrightarrow> handleClick e href w = (Returned, e, w))
   \<and> (querySelector w h = Inr None \<longrightarrow> handleClick e (Some h) w = (Returned, e, w))
   \<and> ((\<forall>t. querySelector w h \<noteq> Inr (Some t)) \<longrightarrow> snd (handleClick e (Some h) w) = (e, w))
   \<and> (h \<noteq> [] \<and> h \<noteq> ''#'' \<and> querySelector w h = Inr (Some t) \<longrightarrow>
        handleClick e (Some h) w =
          (Returned, e\<lparr>defaultPrevented := True\<rparr>,
           w\<lparr>scrollTo_calls := scrollTo_calls w @ [((rect_top w t + pageYOffset w) - 80, ''smooth'')],
             pushState_calls := pushState_calls w @ [h]\<rparr>))"
  by (auto simp add: handleClick_def HEADER_OFFSET_def Let_def split: sum.splits option.splits)

theorem handleClick_scrolls_witness:
  "handleClick fresh_click (Some ''#nonexistent'') demo_window = (Returned, fresh_click, demo_window)
   \<and> handleClick fresh_click (Some ''#'') demo_window = (Returned, fresh_click, demo_window)
   \<and> handleClick fresh_click (Some ''#section2'') demo_window =
        (Returned, \<lparr>defaultPrevented = True\<rparr>,
         demo_window\<lparr>scrollTo_calls := [(540, ''smooth'')], pushState_calls := [''#section2'']\<rparr>)"
proof -
  have q: "querySelector demo_window ''#nonexistent'' = Inr None
      \<and> querySelector demo_window ''#section2'' = Inr (Some 2)"
    by (simp add: demo_window_def demo_query_def)
  have v: "rect_top demo_window 2 = 500 \<and> pageYOffset demo_window = 120
      \<and> scrollTo_calls demo_window = [] \<and> pushState_calls demo_window = []"
    by (simp add: demo_window_def)
  from q v
    handleClick_scrolls [where href = "Some ''#''" and e = fresh_click and w = demo_window
      and h = "''#nonexistent''" and t = 0]
    handleClick_scrolls [where href = "Some ''#''" and e = fresh_click and w = demo_window
      and h = "''#section2''" and t = 2]
  show ?thesis by (simp add: fresh_click_def)
qed

text \<open>
  C4 fails on the code: \<^verbatim>\<open>handleClick\<close> passes every fragment other than the empty one
  and the bare \<^verbatim>\<open>#\<close> to \<^verbatim>\<open>querySelector\<close> outside any \<^verbatim>\<open>try\<close>. On the link
  \<^verbatim>\<open>#/about\<close>, which is not a selector, the exception of \<^verbatim>\<open>querySelector\<close> leaves the
  handler; event and window stay as they were.
\<close>

theorem handleClick_malformed_throws:
  "handleClick fresh_click (Some ''#/about'') demo_window = (Threw SyntaxError, fresh_click, demo_window)"
  by (simp add: handleClick_def demo_window_def demo_query_def)

theorem handleClick_malformed_throws_witness:
  "fst (handleClick fresh_click (Some ''#/about'') demo_window) = Threw SyntaxError
   \<and> fst (handleClick fresh_click (Some ''#/about'') demo_window) \<noteq> Returned
   \<and> snd (handleClick fresh_click (Some ''#/about'') demo_window) = (fresh_click, demo_window)"
  using handleClick_malformed_throws by simp

section \<open>Properties of the Scroll Reveal Module\<close>

lemma classList_fold_add_revealed:
  "classList_contains (classList (fold add_revealed els p) el) c
     = (classList_contains (classList p el) c \<or> (c = ''revealed'' \<and> el \<in> set els))"
  by (induction els arbitrary: p) (auto simp add: add_revealed_def classList_add_def classList_contains_def)

lemma frame_fold_add_revealed:
  "observer (fold add_revealed els p) = observer p
   \<and> observed (fold add_revealed els p) = observed p
   \<and> observe_calls (fold add_revealed els p) = observe_calls p"
  by (induction els arbitrary: p) (simp_all add: add_revealed_def)

text \<open>
  C6. With the reduced-motion preference active, \<^verbatim>\<open>init\<close> returns with every candidate
  element marked revealed, creates no observer and issues no \<^verbatim>\<open>observe\<close> call: the
  observer, its targets and the recorded calls are as before.
\<close>

theorem reduced_motion_reveals_all:
  "reduced_motion p = Some True \<longrightarrow>
     fst (ScrollReveal_init p) = Returned
     \<and> (\<forall>el \<in> set (candidates p). revealed el (snd (ScrollReveal_init p)))
     \<and> observer (snd (ScrollReveal_init p)) = observer p
     \<and> observed (snd (ScrollReveal_init p)) = observed p
     \<and> observe_calls (snd (ScrollReveal_init p)) = observe_calls p"
  by (simp add: ScrollReveal_init_def revealed_def classList_fold_add_revealed frame_fold_add_revealed)

theorem reduced_motion_reveals_all_witness:
  "reduced_motion (demo_reveal True) = Some True
   \<and> fst (ScrollReveal_init (demo_reveal True)) = Returned
   \<and> revealed 1 (snd (ScrollReveal_init (demo_reveal True)))
   \<and> revealed 2 (snd (ScrollReveal_init (demo_reveal True)))
   \<and> \<not> observer (snd (ScrollReveal_init (demo_reveal True)))
   \<and> observed (snd (ScrollReveal_init (demo_reveal True))) = {}
   \<and> observe_calls (snd (ScrollReveal_init (demo_reveal True))) = []"
proof -
  have r: "reduced_motion (demo_reveal True) = Some True"
    by (simp add: demo_reveal_def)
  have c: "set (candidates (demo_reveal True)) = {1, 2}"
    by (auto simp add: demo_reveal_def demo_classes_def candidates_def classList_contains_def)
  have o: "\<not> observer (demo_reveal True) \<and> observed (demo_reveal True) = {}
      \<and> observe_calls (demo_reveal True) = []"
    by (simp add: demo_reveal_def)
  from r c o reduced_motion_reveals_all [of "demo_reveal True"]
  show ?thesis by simp
qed

lemma revealed_handleEntry:
  "revealed el (handleEntry en p) = (revealed el p \<or> (isIntersecting en \<and> target en = el))"
  by (auto simp add: handleEntry_def unobserve_def add_revealed_def revealed_def
      classList_add_def classList_contains_def)

lemma observed_handleEntry:
  "observed (handleEntry en p) = (if isIntersecting en then observed p - {target en} else observed p)"
  by (simp add: handleEntry_def unobserve_def add_revealed_def)

lemma revealed_handleIntersection:
  "revealed el (handleIntersection ens p)
     = (revealed el p \<or> (\<exists>en \<in> set ens. isIntersecting en \<and> target en = el))"
  unfolding handleIntersection_def
  by (induction ens arbitrary: p) (auto simp add: revealed_handleEntry)

lemma observed_handleIntersection:
  "observed (handleIntersection ens p)
     = observed p - target ` {en \<in> set ens. isIntersecting en}"
  unfolding handleIntersection_def
  by (induction ens arbitrary: p) (auto simp add: observed_handleEntry)

lemma classList_fold_observe: "classList (fold observe els p) = classList p"
  by (induction els arbitrary: p) (simp_all add: observe_def)

lemma revealed_init: "revealed el p \<Longrightarrow> revealed el (snd (ScrollReveal_init p))"
  by (simp add: ScrollReveal_init_def revealed_def classList_fold_add_revealed
      classList_fold_observe split: option.splits bool.splits)

lemma transitions_revealed:
  "revealed el p \<Longrightarrow> transitions el (history p bs) = 0"
proof (induction bs arbitrary: p)
  case Nil
  show ?case by simp
next
  case (Cons b bs)
  have r: "revealed el (handleIntersection b p)"
    using Cons.prems by (simp add: revealed_handleIntersection)
  show ?case
    using Cons.IH [OF r] Cons.prems by (cases bs) simp_all
qed

lemma transitions_le_1: "transitions el (history p bs) \<le> 1"
proof (induction bs arbitrary: p)
  case Nil
  show ?case by simp
next
  case (Cons b bs)
  show ?case
  proof (cases "revealed el (handleIntersection b p)")
    case True
    then have "transitions el (history (handleIntersection b p) bs) = 0"
      by (rule transitions_revealed)
    then show ?thesis by (cases bs) simp_all
  next
    case False
    with Cons.IH [of "handleIntersection b p"] show ?thesis by (cases bs) simp_all
  qed
qed

lemma deliver_unobserved:
  "el \<notin> observed p \<Longrightarrow> deliver batch p = deliver (filter (\<lambda>en. target en \<noteq> el) batch) p"
proof -
  assume u: "el \<notin> observed p"
  have "filter (\<lambda>en. target en \<in> observed p) (filter (\<lambda>en. target en \<noteq> el) batch)
      = filter (\<lambda>en. target en \<in> observed p) batch"
    using u by (induction batch) auto
  then show ?thesis by (simp add: deliver_def)
qed

text \<open>
  C7. The reveal is one-shot per element. After a batch, every entry reported as
  intersecting has its element revealed and no longer observed. A revealed element stays
  revealed, through \<^verbatim>\<open>handleIntersection\<close> and through \<^verbatim>\<open>init\<close>. An element that is not
  observed stays so, and a batch reported then is handled as if it held no entry for
  that element. Over any sequence of batches an element passes from pending to revealed
  at most once.
\<close>

theorem reveal_one_shot:
  "(\<forall>en \<in> set entries. isIntersecting en \<longrightarrow>
       revealed (target en) (handleIntersection entries p)
       \<and> target en \<notin> observed (handleIntersection entries p))
   \<and> (revealed el p \<longrightarrow>
        revealed el (handleIntersection entries p) \<and> revealed el (snd (ScrollReveal_init p)))
   \<and> (el \<notin> observed p \<longrightarrow>
        el \<notin> observed (handleIntersection entries p)
        \<and> deliver batch p = deliver (filter (\<lambda>en. target en \<noteq> el) batch) p)
   \<and> transitions el (history p batches) \<le> 1"
proof -
  have a: "\<forall>en \<in> set entries. isIntersecting en \<longrightarrow>
       revealed (target en) (handleIntersection entries p)
       \<and> target en \<notin> observed (handleIntersection entries p)"
    by (auto simp add: revealed_handleIntersection observed_handleIntersection)
  have b: "revealed el p \<longrightarrow>
        revealed el (handleIntersection entries p) \<and> revealed el (snd (ScrollReveal_init p))"
    by (simp add: revealed_handleIntersection revealed_init)
  have c: "el \<notin> observed p \<longrightarrow> el \<notin> observed (handleIntersection entries p)"
    by (simp add: observed_handleIntersection)
  have d: "el \<notin> observed p \<longrightarrow> deliver batch p = deliver (filter (\<lambda>en. target en \<noteq> el) batch) p"
    using deliver_unobserved by blast
  from a b c d transitions_le_1 [of el p batches] show ?thesis by blast
qed

theorem reveal_one_shot_witness:
  "revealed 1 (handleIntersection demo_batch observing_page)
   \<and> 1 \<notin> observed (handleIntersection demo_batch observing_page)
   \<and> revealed 1 (handleIntersection demo_batch (handleIntersection demo_batch observing_page))
   \<and> 1 \<notin> observed (handleIntersection demo_batch (handleIntersection demo_batch observing_page))
   \<and> deliver demo_batch (handleIntersection demo_batch observing_page)
       = deliver (filter (\<lambda>en. target en \<noteq> 1) demo_batch) (handleIntersection demo_batch observing_page)
   \<and> transitions 1 (history observing_page [demo_batch, demo_batch]) \<le> 1"
proof -
  have m: "\<lparr>isIntersecting = True, target = 1\<rparr> \<in> set demo_batch"
    by (simp add: demo_batch_def)
  have a: "revealed 1 (handleIntersection demo_batch observing_page)
      \<and> 1 \<notin> observed (handleIntersection demo_batch observing_page)"
    using m reveal_one_shot [of demo_batch observing_page 1 demo_batch "[demo_batch, demo_batch]"]
    by fastforce
  have b: "revealed 1 (handleIntersection demo_batch (handleIntersection demo_batch observing_page))
      \<and> 1 \<notin> observed (handleIntersection demo_batch (handleIntersection demo_batch observing_page))
      \<and> deliver demo_batch (handleIntersection demo_batch observing_page)
         = deliver (filter (\<lambda>en. target en \<noteq> 1) demo_batch) (handleIntersection demo_batch observing_page)"
    using a reveal_one_shot [of demo_batch "handleIntersection demo_batch observing_page" 1 demo_batch "[]"]
    by blast
  have c: "transitions 1 (history observing_page [demo_batch, demo_batch]) \<le> 1"
    using reveal_one_shot [of demo_batch observing_page 1 demo_batch "[demo_batch, demo_batch]"]
    by blast
  from a b c show ?thesis by simp
qed

section \<open>Properties of the Mobile Menu Module\<close>

lemma classList_remove_absent: "\<not> classList_contains cs c \<Longrightarrow> classList_remove cs c = cs"
  by (induction cs) (auto simp add: classList_remove_def classList_contains_def)

text \<open>
  C9 as stated fails: the listener calls \<^verbatim>\<open>closeMenu\<close> on every outside click, open
  or closed, and \<^verbatim>\<open>closeMenu\<close> writes the \<^verbatim>\<open>aria-expanded\<close> attribute. On a closed menu
  whose toggle has no such attribute yet, the click changes the attribute.
\<close>

theorem outside_click_closed_counterexample:
  "\<not> is_open (closed_menu None)
   \<and> aria_expanded (onDocumentClick outside_click (closed_menu None)) \<noteq> aria_expanded (closed_menu None)"
  by (simp add: is_open_def closed_menu_def onDocumentClick_def outside_click_def closeMenu_def
      classList_contains_def Let_def)

text \<open>
  C9, amended. From the closed state, a click outside the menu and the toggle leaves
  the menu closed and sets the toggle's \<^verbatim>\<open>aria-expanded\<close> attribute to \<^verbatim>\<open>false\<close>;
  nothing else changes, and nothing at all when the attribute is \<^verbatim>\<open>false\<close> already.
\<close>

theorem outside_click_closed:
  "\<not> is_open p \<and> \<not> in_menu e \<and> \<not> in_toggle e \<longrightarrow>
     onDocumentClick e p = p\<lparr>aria_expanded := Some ''false''\<rparr>
     \<and> \<not> is_open (onDocumentClick e p)
     \<and> (aria_expanded p = Some ''false'' \<longrightarrow> onDocumentClick e p = p)"
  by (auto simp add: onDocumentClick_def closeMenu_def is_open_def classList_remove_absent Let_def)

theorem outside_click_closed_witness:
  "\<not> is_open (closed_menu None)
   \<and> onDocumentClick outside_click (closed_menu None) = closed_menu (Some ''false'')
   \<and> \<not> is_open (onDocumentClick outside_click (closed_menu None))
   \<and> onDocumentClick outside_click (closed_menu (Some ''false'')) = closed_menu (Some ''false'')"
proof -
  have c: "\<not> is_open (closed_menu v)" for v
    by (simp add: is_open_def closed_menu_def classList_contains_def)
  have o: "\<not> in_menu outside_click \<and> \<not> in_toggle outside_click"
    by (simp add: outside_click_def)
  have u: "(closed_menu None)\<lparr>aria_expanded := Some ''false''\<rparr> = closed_menu (Some ''false'')"
    by (simp add: closed_menu_def)
  have f: "aria_expanded (closed_menu (Some ''false'')) = Some ''false''"
    by (simp add: closed_menu_def)
  from c o u f
    outside_click_closed [of "closed_menu None" outside_click]
    outside_click_closed [of "closed_menu (Some ''false'')" outside_click]
  show ?thesis by simp
qed

end
